theory Spec2Isabelle
  imports Main "HOL-Library.Word"
begin

unbundle bit_operations_syntax

section \<open>The attribute register of hphp/runtime/base/attr.h\<close>

text \<open>
  \<^verbatim>\<open>enum Attr\<close> is an unscoped enumeration whose largest enumerator is
  \<^verbatim>\<open>1u << 31\<close>, so its underlying type is the 32-bit \<^verbatim>\<open>unsigned int\<close>.
  A value of the enumeration is any 32-bit pattern.
\<close>

type_synonym Attr = "32 word"

subsection \<open>The enumerators\<close>

text \<open>Every enumerator is written \<^verbatim>\<open>(1u << n)\<close> in the source, apart from \<^verbatim>\<open>AttrNone = 0\<close>.\<close>

definition AttrNone :: Attr where
  "AttrNone = 0"

definition AttrForbidDynamicProps :: Attr where
  "AttrForbidDynamicProps = push_bit 0 1"

definition AttrDeepInit :: Attr where
  "AttrDeepInit = push_bit 0 1"

definition AttrPublic :: Attr where
  "AttrPublic = push_bit 1 1"

definition AttrProtected :: Attr where
  "AttrProtected = push_bit 2 1"

definition AttrPrivate :: Attr where
  "AttrPrivate = push_bit 3 1"

definition AttrEnum :: Attr where
  "AttrEnum = push_bit 4 1"

definition AttrSystemInitialValue :: Attr where
  "AttrSystemInitialValue = push_bit 5 1"

definition AttrNoImplicitNullable :: Attr where
  "AttrNoImplicitNullable = push_bit 6 1"

definition AttrStatic :: Attr where
  "AttrStatic = push_bit 4 1"

definition AttrAbstract :: Attr where
  "AttrAbstract = push_bit 5 1"

definition AttrFinal :: Attr where
  "AttrFinal = push_bit 6 1"

definition AttrInterface :: Attr where
  "AttrInterface = push_bit 7 1"

definition AttrLSB :: Attr where
  "AttrLSB = push_bit 7 1"

definition AttrSupportsAsyncEagerReturn :: Attr where
  "AttrSupportsAsyncEagerReturn = push_bit 7 1"

definition AttrTrait :: Attr where
  "AttrTrait = push_bit 8 1"

definition AttrNoInjection :: Attr where
  "AttrNoInjection = push_bit 9 1"

definition AttrInitialSatisfiesTC :: Attr where
  "AttrInitialSatisfiesTC = push_bit 9 1"

definition AttrUnique :: Attr where
  "AttrUnique = push_bit 10 1"

definition AttrNoBadRedeclare :: Attr where
  "AttrNoBadRedeclare = push_bit 10 1"

definition AttrInterceptable :: Attr where
  "AttrInterceptable = push_bit 11 1"

definition AttrSealed :: Attr where
  "AttrSealed = push_bit 11 1"

definition AttrLateInit :: Attr where
  "AttrLateInit = push_bit 11 1"

definition AttrNoExpandTrait :: Attr where
  "AttrNoExpandTrait = push_bit 12 1"

definition AttrNoOverride :: Attr where
  "AttrNoOverride = push_bit 13 1"

definition AttrPersistent :: Attr where
  "AttrPersistent = push_bit 18 1"

definition AttrDynamicallyCallable :: Attr where
  "AttrDynamicallyCallable = push_bit 19 1"

definition AttrDynamicallyConstructible :: Attr where
  "AttrDynamicallyConstructible = push_bit 19 1"

definition AttrBuiltin :: Attr where
  "AttrBuiltin = push_bit 20 1"

definition AttrIsConst :: Attr where
  "AttrIsConst = push_bit 21 1"

definition AttrNoReifiedInit :: Attr where
  "AttrNoReifiedInit = push_bit 23 1"

definition AttrIsMethCaller :: Attr where
  "AttrIsMethCaller = push_bit 24 1"

definition AttrIsClosureClass :: Attr where
  "AttrIsClosureClass = push_bit 24 1"

definition AttrHasClosureCoeffectsProp :: Attr where
  "AttrHasClosureCoeffectsProp = push_bit 25 1"

definition AttrHasCoeffectRules :: Attr where
  "AttrHasCoeffectRules = push_bit 25 1"

definition AttrIsReadonly :: Attr where
  "AttrIsReadonly = push_bit 26 1"

definition AttrIsFoldable :: Attr where
  "AttrIsFoldable = push_bit 26 1"

definition AttrNoFCallBuiltin :: Attr where
  "AttrNoFCallBuiltin = push_bit 27 1"

definition AttrVariadicParam :: Attr where
  "AttrVariadicParam = push_bit 28 1"

definition AttrProvenanceSkipFrame :: Attr where
  "AttrProvenanceSkipFrame = push_bit 29 1"

definition AttrEnumClass :: Attr where
  "AttrEnumClass = push_bit 30 1"

definition AttrUnusedMaxAttr :: Attr where
  "AttrUnusedMaxAttr = push_bit 31 1"

subsection \<open>The operators\<close>

text \<open>
  \<^verbatim>\<open>constexpr Attr operator|(Attr a, Attr b) { return Attr((int)a | (int)b); }\<close>

  Both operands are cast to the 32-bit signed \<^verbatim>\<open>int\<close> (the two's complement reading
  of the same bits, \<^const>\<open>sint\<close>), combined there, and the result is converted back to the
  enumeration (reduction modulo \<open>2 ^ 32\<close>, \<^const>\<open>word_of_int\<close>).
\<close>

definition operator_or :: "Attr \<Rightarrow> Attr \<Rightarrow> Attr" where
  "operator_or a b = word_of_int (sint a OR sint b)"

text \<open>
  \<^verbatim>\<open>inline Attr& operator|=(Attr& a, const Attr& b) { return (a = Attr((int)a | (int)b)); }\<close>

  The function assigns to the referenced \<^verbatim>\<open>a\<close> and returns that reference; the model
  returns the value \<^verbatim>\<open>a\<close> holds afterwards.
\<close>

definition operator_or_assign :: "Attr \<Rightarrow> Attr \<Rightarrow> Attr" where
  "operator_or_assign a b = word_of_int (sint a OR sint b)"

text \<open>
  \<^verbatim>\<open>
  inline void attrSetter(Attr& attrs, bool set, Attr what) {
    if (set) {
      attrs |= what;
    } else {
      attrs = Attr(attrs & ~what);
    }
  }
  \<close>
  In the second branch both operands are promoted to \<^verbatim>\<open>unsigned int\<close>, so the
  complement and the conjunction are those of 32-bit words. The model returns the value
  \<^verbatim>\<open>attrs\<close> holds after the call.
\<close>

definition attrSetter :: "Attr \<Rightarrow> bool \<Rightarrow> Attr \<Rightarrow> Attr" where
  "attrSetter attrs set_it what =
     (if set_it then operator_or_assign attrs what else attrs AND NOT what)"

text \<open>\<^verbatim>\<open>constexpr Attr VisibilityAttrs = AttrPublic|AttrProtected|AttrPrivate;\<close>\<close>

definition VisibilityAttrs :: Attr where
  "VisibilityAttrs = operator_or (operator_or AttrPublic AttrProtected) AttrPrivate"

text \<open>
  \<^verbatim>\<open>
  inline const char* attrToVisibilityStr(Attr attr) {
    return (attr & AttrPrivate)   ? "private"   :
           (attr & AttrProtected) ? "protected" : "public";
  }
  \<close>
  A condition of the conditional operator holds when the conjunction is not zero.
\<close>

definition attrToVisibilityStr :: "Attr \<Rightarrow> string" where
  "attrToVisibilityStr attr =
     (if attr AND AttrPrivate \<noteq> 0 then ''private''
      else if attr AND AttrProtected \<noteq> 0 then ''protected''
      else ''public'')"

text \<open>
  Modelled from the spec: \<^verbatim>\<open>hasFlag\<close> is not a function of attr.h (callers test
  \<^verbatim>\<open>attrs & flag\<close> in place). The specification defines it as "AND then compare to the
  mask": all bits of the flag's mask are set in the register.
\<close>

definition hasFlag :: "Attr \<Rightarrow> Attr \<Rightarrow> bool" where
  "hasFlag r f = (r AND f = f)"

subsection \<open>The catalog\<close>

text \<open>
  The comment columns \<^verbatim>\<open>class | property | method\<close> beside the enumerators say on which
  kind of subject each attribute is used. A row of the catalog is an enumerator's name, its
  value and its three column marks, in the order of the source. The comment beside
  \<^verbatim>\<open>AttrNone\<close> names all three columns; \<^verbatim>\<open>AttrUnusedMaxAttr\<close> has no mark.
\<close>

datatype SubjectKind = Class | Property | Method

record flag_entry =
  flag_name :: string
  flag_mask :: Attr
  flag_kinds :: "SubjectKind list"

definition row :: "string \<Rightarrow> Attr \<Rightarrow> SubjectKind list \<Rightarrow> flag_entry" where
  "row n m ks = \<lparr>flag_name = n, flag_mask = m, flag_kinds = ks\<rparr>"

definition catalog :: "flag_entry list" where
  "catalog =
    [row ''AttrNone'' AttrNone [Class, Property, Method],
     row ''AttrForbidDynamicProps'' AttrForbidDynamicProps [Class],
     row ''AttrDeepInit'' AttrDeepInit [Property],
     row ''AttrPublic'' AttrPublic [Property, Method],
     row ''AttrProtected'' AttrProtected [Property, Method],
     row ''AttrPrivate'' AttrPrivate [Property, Method],
     row ''AttrEnum'' AttrEnum [Class],
     row ''AttrSystemInitialValue'' AttrSystemInitialValue [Property],
     row ''AttrNoImplicitNullable'' AttrNoImplicitNullable [Property],
     row ''AttrStatic'' AttrStatic [Property, Method],
     row ''AttrAbstract'' AttrAbstract [Class, Method],
     row ''AttrFinal'' AttrFinal [Class, Method],
     row ''AttrInterface'' AttrInterface [Class],
     row ''AttrLSB'' AttrLSB [Property],
     row ''AttrSupportsAsyncEagerReturn'' AttrSupportsAsyncEagerReturn [Method],
     row ''AttrTrait'' AttrTrait [Class, Property, Method],
     row ''AttrNoInjection'' AttrNoInjection [Method],
     row ''AttrInitialSatisfiesTC'' AttrInitialSatisfiesTC [Property],
     row ''AttrUnique'' AttrUnique [Class, Method],
     row ''AttrNoBadRedeclare'' AttrNoBadRedeclare [Property],
     row ''AttrInterceptable'' AttrInterceptable [Method],
     row ''AttrSealed'' AttrSealed [Class],
     row ''AttrLateInit'' AttrLateInit [Property],
     row ''AttrNoExpandTrait'' AttrNoExpandTrait [Class],
     row ''AttrNoOverride'' AttrNoOverride [Class, Method],
     row ''AttrPersistent'' AttrPersistent [Class, Property, Method],
     row ''AttrDynamicallyCallable'' AttrDynamicallyCallable [Method],
     row ''AttrDynamicallyConstructible'' AttrDynamicallyConstructible [Class],
     row ''AttrBuiltin'' AttrBuiltin [Class, Method],
     row ''AttrIsConst'' AttrIsConst [Class, Property],
     row ''AttrNoReifiedInit'' AttrNoReifiedInit [Class],
     row ''AttrIsMethCaller'' AttrIsMethCaller [Method],
     row ''AttrIsClosureClass'' AttrIsClosureClass [Class],
     row ''AttrHasClosureCoeffectsProp'' AttrHasClosureCoeffectsProp [Class],
     row ''AttrHasCoeffectRules'' AttrHasCoeffectRules [Method],
     row ''AttrIsReadonly'' AttrIsReadonly [Property],
     row ''AttrIsFoldable'' AttrIsFoldable [Method],
     row ''AttrNoFCallBuiltin'' AttrNoFCallBuiltin [Method],
     row ''AttrVariadicParam'' AttrVariadicParam [Method],
     row ''AttrProvenanceSkipFrame'' AttrProvenanceSkipFrame [Method],
     row ''AttrEnumClass'' AttrEnumClass [Class],
     row ''AttrUnusedMaxAttr'' AttrUnusedMaxAttr []]"

text \<open>The rows marked for one kind of subject.\<close>

definition applicable :: "SubjectKind \<Rightarrow> flag_entry list" where
  "applicable k = filter (\<lambda>e. k \<in> set (flag_kinds e)) catalog"

text \<open>
  Every named flag constant of the file: the enumerators, and the mask
  \<^verbatim>\<open>VisibilityAttrs\<close> declared after the enumeration.
\<close>

definition enumerators :: "Attr list" where
  "enumerators = map flag_mask catalog"

definition named_flags :: "Attr list" where
  "named_flags = enumerators @ [VisibilityAttrs]"

section \<open>Properties\<close>

subsection \<open>The operators as bit operations\<close>

text \<open>The detour through the signed \<^verbatim>\<open>int\<close> does not change any bit.\<close>

lemma operator_or_eq: "operator_or a b = a OR b"
  unfolding operator_or_def
  by (rule bit_word_eqI) (simp add: bit_simps)

lemma operator_or_assign_eq: "operator_or_assign a b = a OR b"
  unfolding operator_or_assign_def
  by (rule bit_word_eqI) (simp add: bit_simps)

lemma hasFlag_bits: "hasFlag r f = (\<forall>n. bit f n \<longrightarrow> bit r n)"
proof
  assume "hasFlag r f"
  then have "r AND f = f" by (simp add: hasFlag_def)
  then have "\<And>n. bit (r AND f) n = bit f n" by simp
  then show "\<forall>n. bit f n \<longrightarrow> bit r n" by (auto simp add: bit_simps)
next
  assume h: "\<forall>n. bit f n \<longrightarrow> bit r n"
  have "r AND f = f"
    using h by (intro bit_word_eqI) (auto simp add: bit_simps)
  then show "hasFlag r f" by (simp add: hasFlag_def)
qed

lemma hasFlag_zero: "hasFlag r 0"
  by (simp add: hasFlag_def)

lemma hasFlag_single: "n < 32 \<Longrightarrow> hasFlag r (push_bit n 1) = bit r n"
  by (auto simp add: hasFlag_bits bit_simps)

lemma test_single: "n < 32 \<Longrightarrow> (r AND push_bit n 1 \<noteq> 0) = bit (r :: Attr) n"
  by (simp add: and_exp_eq_0_iff_not_bit)

lemmas visibility_defs = AttrPublic_def AttrProtected_def AttrPrivate_def

lemma VisibilityAttrs_value: "VisibilityAttrs = 14"
  by (simp add: VisibilityAttrs_def operator_or_eq visibility_defs)

lemma attrToVisibilityStr_bits:
  "attrToVisibilityStr r =
     (if bit r 3 then ''private'' else if bit r 2 then ''protected'' else ''public'')"
  unfolding attrToVisibilityStr_def AttrPrivate_def AttrProtected_def
  by (simp add: test_single del: push_bit_of_1)

subsection \<open>Facts about the whole catalog\<close>

text \<open>Every enumerator is zero or a single bit of the 32-bit word.\<close>

lemma enumerators_shape:
  "set enumerators \<subseteq> insert 0 (set (map (\<lambda>n. push_bit n 1) [0..<32]))"
  by code_simp

lemma enumerator_cases:
  assumes "f \<in> set enumerators"
  shows "f = 0 \<or> (\<exists>n<32. f = push_bit n 1)"
proof -
  from assms enumerators_shape
  have "f \<in> insert 0 (set (map (\<lambda>n. push_bit n 1) [0..<32]))"
    by (rule subsetD[rotated])
  then have "f = 0 \<or> f \<in> (\<lambda>n. push_bit n 1) ` {0..<32}" by simp
  then show ?thesis by (auto simp del: push_bit_of_1)
qed

text \<open>Only \<^verbatim>\<open>AttrUnusedMaxAttr\<close> has bit 31.\<close>

lemma top_bit_clear: "list_all (\<lambda>f. f = AttrUnusedMaxAttr \<or> \<not> bit f 31) named_flags"
  by code_simp

lemma named_flag_top_bit:
  assumes "f \<in> set named_flags" and "f \<noteq> AttrUnusedMaxAttr"
  shows "\<not> bit f 31"
  using top_bit_clear assms unfolding list_all_iff by blast

lemma bit_AttrUnusedMaxAttr: "bit AttrUnusedMaxAttr n = (n = 31)"
  unfolding AttrUnusedMaxAttr_def
  by (auto simp add: bit_simps simp del: push_bit_of_1)

text \<open>Within one kind, every row is disjoint from all the rows after it.\<close>

lemma disjoint_Class:
  "sorted_wrt (\<lambda>x y. flag_mask x AND flag_mask y = 0) (applicable Class)"
  by code_simp

lemma disjoint_Property:
  "sorted_wrt (\<lambda>x y. flag_mask x AND flag_mask y = 0) (applicable Property)"
  by code_simp

lemma disjoint_Method:
  "sorted_wrt (\<lambda>x y. flag_mask x AND flag_mask y = 0) (applicable Method)"
  by code_simp

lemma sorted_wrt_disjoint:
  assumes "sorted_wrt (\<lambda>x y. flag_mask x AND flag_mask y = 0) es"
    and "e1 \<in> set es" and "e2 \<in> set es" and "e1 \<noteq> e2"
  shows "flag_mask e1 AND flag_mask e2 = 0"
  using assms by (induction es) (auto simp add: and.commute)

text \<open>A word whose bits all lie below position \<open>w\<close> vanishes when shifted right by \<open>w\<close>.\<close>

lemma drop_bit_zero_iff: "(drop_bit w (m::Attr) = 0) = (\<forall>n. bit m n \<longrightarrow> n < w)"
proof
  assume z: "drop_bit w m = 0"
  show "\<forall>n. bit m n \<longrightarrow> n < w"
  proof (intro allI impI, rule ccontr)
    fix n assume b: "bit m n" and "\<not> n < w"
    then have "n = w + (n - w)" by simp
    with b have "bit (drop_bit w m) (n - w)" by (simp add: bit_drop_bit_eq)
    with z show False by simp
  qed
next
  assume "\<forall>n. bit m n \<longrightarrow> n < w"
  then show "drop_bit w m = 0"
    by (intro bit_word_eqI) (auto simp add: bit_drop_bit_eq)
qed

lemma catalog_widths:
  "list_all (\<lambda>e. flag_name e = ''AttrUnusedMaxAttr'' \<or>
     (drop_bit 31 (flag_mask e) = 0 \<and>
      (flag_name e \<in> set [''AttrVariadicParam'', ''AttrProvenanceSkipFrame'', ''AttrEnumClass'']
        \<or> drop_bit 28 (flag_mask e) = 0))) catalog"
  by code_simp

subsection \<open>Registers that agree below the top bit\<close>

lemma take_bit_31_bits:
  assumes "take_bit 31 r = take_bit 31 (r' :: Attr)" and "n \<noteq> 31"
  shows "bit r n = bit r' n"
proof (cases "n < 31")
  case True
  from assms(1) have "bit (take_bit 31 r) n = bit (take_bit 31 r') n" by simp
  with True show ?thesis by (simp add: bit_take_bit_iff)
next
  case False
  with assms(2) have "\<not> n < 32" by simp
  then have "\<not> bit r n" and "\<not> bit r' n"
    by (auto dest: bit_imp_le_length)
  then show ?thesis by simp
qed

lemma same_below_top:
  assumes "take_bit 31 r = take_bit 31 r'"
    and "f \<in> set named_flags" and "f \<noteq> AttrUnusedMaxAttr"
  shows "hasFlag r f = hasFlag r' f"
proof -
  from assms(2,3) have "\<not> bit f 31" by (rule named_flag_top_bit)
  then have "\<And>n. bit f n \<Longrightarrow> n \<noteq> 31" by auto
  then have "\<And>n. bit f n \<Longrightarrow> bit r n = bit r' n"
    by (rule take_bit_31_bits [OF assms(1)])
  then show ?thesis unfolding hasFlag_bits by blast
qed

lemma attrSetter_top_bit:
  "n \<noteq> 31 \<Longrightarrow> bit (attrSetter r b AttrUnusedMaxAttr) n = bit r n"
  by (auto simp add: attrSetter_def operator_or_assign_eq bit_AttrUnusedMaxAttr bit_simps
      dest: bit_imp_le_length)

lemma take_bit_31_attrSetter:
  "take_bit 31 (attrSetter r b AttrUnusedMaxAttr) = take_bit 31 r"
  by (rule bit_word_eqI) (auto simp add: bit_take_bit_iff attrSetter_top_bit)

lemma round_trip_nonzero:
  "hasFlag (attrSetter r True f) f \<and> (f \<noteq> 0 \<longrightarrow> \<not> hasFlag (attrSetter r False f) f)"
  by (auto simp add: attrSetter_def operator_or_assign_eq hasFlag_bits bit_simps bit_eq_iff)

section \<open>The claims\<close>

text \<open>
  Claim C1. \<^verbatim>\<open>attrToVisibilityStr\<close> decodes in the fixed priority order private, then
  protected, else public: for every register, if the \<^verbatim>\<open>AttrPrivate\<close> bit is set the
  result is "private"; otherwise, if the \<^verbatim>\<open>AttrProtected\<close> bit is set, it is "protected";
  otherwise (also when no visibility bit is set at all) it is "public".
\<close>

theorem attrToVisibilityStr_priority:
  "(hasFlag r AttrPrivate \<longrightarrow> attrToVisibilityStr r = ''private'') \<and>
   (\<not> hasFlag r AttrPrivate \<and> hasFlag r AttrProtected \<longrightarrow>
      attrToVisibilityStr r = ''protected'') \<and>
   (\<not> hasFlag r AttrPrivate \<and> \<not> hasFlag r AttrProtected \<longrightarrow>
      attrToVisibilityStr r = ''public'')"
  unfolding attrToVisibilityStr_def AttrPrivate_def AttrProtected_def
  by (simp add: test_single hasFlag_single del: push_bit_of_1)

text \<open>
  The three cases at the registers the specification names: private and protected together
  decode to "private", protected and public together to "protected", the empty register to
  "public".
\<close>

theorem attrToVisibilityStr_priority_witness:
  "hasFlag (operator_or AttrPrivate AttrProtected) AttrPrivate \<and>
   attrToVisibilityStr (operator_or AttrPrivate AttrProtected) = ''private'' \<and>
   \<not> hasFlag (operator_or AttrProtected AttrPublic) AttrPrivate \<and>
   hasFlag (operator_or AttrProtected AttrPublic) AttrProtected \<and>
   attrToVisibilityStr (operator_or AttrProtected AttrPublic) = ''protected'' \<and>
   \<not> hasFlag AttrNone AttrPrivate \<and> \<not> hasFlag AttrNone AttrProtected \<and>
   attrToVisibilityStr AttrNone = ''public''"
  using attrToVisibilityStr_priority [of "operator_or AttrPrivate AttrProtected"]
    attrToVisibilityStr_priority [of "operator_or AttrProtected AttrPublic"]
    attrToVisibilityStr_priority [of AttrNone]
  by (simp add: hasFlag_def operator_or_eq visibility_defs AttrNone_def)

text \<open>
  Claim C2, as stated, says that for every named flag constant \<open>f\<close>, the mask
  \<^verbatim>\<open>VisibilityAttrs\<close> included, a union has \<open>f\<close> exactly when one of its operands has.
  It fails for \<^verbatim>\<open>VisibilityAttrs\<close>: the union of \<^verbatim>\<open>AttrPublic\<close> with
  \<^verbatim>\<open>AttrProtected|AttrPrivate\<close> holds all three bits, and neither operand does.
\<close>

theorem union_VisibilityAttrs_counterexample:
  "VisibilityAttrs \<in> set named_flags \<and>
   hasFlag (operator_or AttrPublic (operator_or AttrProtected AttrPrivate)) VisibilityAttrs \<and>
   \<not> (hasFlag AttrPublic VisibilityAttrs \<or>
      hasFlag (operator_or AttrProtected AttrPrivate) VisibilityAttrs)"
  by (simp add: named_flags_def VisibilityAttrs_value hasFlag_def operator_or_eq visibility_defs)

text \<open>
  Claim C2, amended. For every enumerator \<open>f\<close> of \<^verbatim>\<open>Attr\<close> (each is zero or one bit),
  \<^verbatim>\<open>a | b\<close> has \<open>f\<close> exactly when \<open>a\<close> or \<open>b\<close> has it. For every named flag constant,
  \<^verbatim>\<open>VisibilityAttrs\<close> included, a flag that one operand has is a flag of the union.
\<close>

theorem union_correct_enumerators:
  "(f \<in> set enumerators \<longrightarrow>
      hasFlag (operator_or a b) f = (hasFlag a f \<or> hasFlag b f)) \<and>
   (f \<in> set named_flags \<longrightarrow>
      (hasFlag a f \<or> hasFlag b f \<longrightarrow> hasFlag (operator_or a b) f))"
proof (intro conjI impI)
  assume "f \<in> set enumerators"
  then have "f = 0 \<or> (\<exists>n<32. f = push_bit n 1)" by (rule enumerator_cases)
  then show "hasFlag (operator_or a b) f = (hasFlag a f \<or> hasFlag b f)"
    by (auto simp add: hasFlag_single hasFlag_zero operator_or_eq bit_simps
        simp del: push_bit_of_1)
next
  assume "hasFlag a f \<or> hasFlag b f"
  then show "hasFlag (operator_or a b) f"
    by (auto simp add: hasFlag_bits operator_or_eq bit_simps)
qed

theorem union_correct_enumerators_witness:
  "AttrStatic \<in> set enumerators \<and>
   hasFlag (operator_or AttrPrivate AttrStatic) AttrStatic =
     (hasFlag AttrPrivate AttrStatic \<or> hasFlag AttrStatic AttrStatic) \<and>
   VisibilityAttrs \<in> set named_flags \<and> hasFlag VisibilityAttrs VisibilityAttrs \<and>
   hasFlag (operator_or VisibilityAttrs AttrStatic) VisibilityAttrs"
proof -
  have m: "AttrStatic \<in> set enumerators"
    by (simp add: enumerators_def catalog_def row_def)
  have v: "VisibilityAttrs \<in> set named_flags"
    by (simp add: named_flags_def)
  have h: "hasFlag VisibilityAttrs VisibilityAttrs"
    by (simp add: hasFlag_def)
  from union_correct_enumerators [of AttrStatic AttrPrivate AttrStatic] m
    union_correct_enumerators [of VisibilityAttrs VisibilityAttrs AttrStatic] v h
  show ?thesis by simp
qed

text \<open>
  Claim C3, as stated, says that for every flag applicable to the register's kind,
  \<^verbatim>\<open>AttrNone\<close> included, the flag is present after \<^verbatim>\<open>attrSetter\<close> sets it and absent
  after \<^verbatim>\<open>attrSetter\<close> clears it. The second half fails for \<^verbatim>\<open>AttrNone\<close>: its mask is
  empty, so every register has it, also after clearing.
\<close>

theorem round_trip_AttrNone_counterexample:
  "AttrNone \<in> flag_mask ` set (applicable Method) \<and>
   hasFlag (attrSetter AttrNone False AttrNone) AttrNone"
  by (simp add: applicable_def catalog_def row_def attrSetter_def hasFlag_def AttrNone_def)

text \<open>
  Claim C3, amended. For every register and every flag \<open>f\<close> applicable to its kind, \<open>f\<close> is
  present after \<^verbatim>\<open>attrSetter\<close> sets it; it is absent after \<^verbatim>\<open>attrSetter\<close> clears it
  when \<open>f\<close> is not \<^verbatim>\<open>AttrNone\<close>, and still present when \<open>f\<close> is \<^verbatim>\<open>AttrNone\<close>.
\<close>

theorem round_trip_applicable:
  "f \<in> flag_mask ` set (applicable k) \<Longrightarrow>
     hasFlag (attrSetter r True f) f \<and>
     (f \<noteq> AttrNone \<longrightarrow> \<not> hasFlag (attrSetter r False f) f) \<and>
     (f = AttrNone \<longrightarrow> hasFlag (attrSetter r False f) f)"
  using round_trip_nonzero [of r f]
  by (auto simp add: AttrNone_def hasFlag_def)

theorem round_trip_applicable_witness:
  "AttrStatic \<in> flag_mask ` set (applicable Method) \<and> AttrStatic \<noteq> AttrNone \<and>
   hasFlag (attrSetter AttrPrivate True AttrStatic) AttrStatic \<and>
   \<not> hasFlag (attrSetter AttrPrivate False AttrStatic) AttrStatic"
proof -
  have m: "AttrStatic \<in> flag_mask ` set (applicable Method)"
    by (simp add: applicable_def catalog_def row_def)
  have n: "AttrStatic \<noteq> AttrNone"
    by (simp add: AttrStatic_def AttrNone_def)
  from round_trip_applicable [OF m, of AttrPrivate] m n show ?thesis by simp
qed

text \<open>
  Claim C4. Intra-kind disjointness: for each of the three kinds of subject, any two
  differently named flags marked applicable to that kind have masks whose bitwise AND is
  zero.
\<close>

theorem intra_kind_disjoint:
  assumes "e1 \<in> set (applicable k)" and "e2 \<in> set (applicable k)"
    and "flag_name e1 \<noteq> flag_name e2"
  shows "flag_mask e1 AND flag_mask e2 = 0"
proof -
  have "sorted_wrt (\<lambda>x y. flag_mask x AND flag_mask y = 0) (applicable k)"
    by (cases k) (simp_all add: disjoint_Class disjoint_Property disjoint_Method)
  moreover from assms(3) have "e1 \<noteq> e2" by auto
  ultimately show ?thesis using assms(1,2) by (simp add: sorted_wrt_disjoint)
qed

theorem intra_kind_disjoint_witness:
  "row ''AttrPrivate'' AttrPrivate [Property, Method] \<in> set (applicable Method) \<and>
   row ''AttrStatic'' AttrStatic [Property, Method] \<in> set (applicable Method) \<and>
   ''AttrPrivate'' \<noteq> ''AttrStatic'' \<and> AttrPrivate AND AttrStatic = 0"
proof -
  have a: "row ''AttrPrivate'' AttrPrivate [Property, Method] \<in> set (applicable Method)"
    by (simp add: applicable_def catalog_def row_def)
  have b: "row ''AttrStatic'' AttrStatic [Property, Method] \<in> set (applicable Method)"
    by (simp add: applicable_def catalog_def row_def)
  have c: "flag_name (row ''AttrPrivate'' AttrPrivate [Property, Method]) \<noteq>
           flag_name (row ''AttrStatic'' AttrStatic [Property, Method])"
    by (simp add: row_def)
  from intra_kind_disjoint [OF a b c] a b show ?thesis by (simp add: row_def)
qed

text \<open>
  Claim C5, as stated, says that every flag of the catalog other than
  \<^verbatim>\<open>AttrUnusedMaxAttr\<close> lies within bit positions 0 to 27. It fails for
  \<^verbatim>\<open>AttrVariadicParam\<close>, which is \<^verbatim>\<open>1u << 28\<close>.
\<close>

theorem width_budget_28_counterexample:
  "row ''AttrVariadicParam'' AttrVariadicParam [Method] \<in> set catalog \<and>
   ''AttrVariadicParam'' \<noteq> ''AttrUnusedMaxAttr'' \<and>
   bit AttrVariadicParam 28 \<and> unat AttrVariadicParam = 2 ^ 28"
  by (simp add: catalog_def AttrVariadicParam_def bit_simps)

text \<open>
  Claim C5, amended. Every flag of the catalog other than \<^verbatim>\<open>AttrUnusedMaxAttr\<close> lies
  within bit positions 0 to 30, and every one of them except \<^verbatim>\<open>AttrVariadicParam\<close>,
  \<^verbatim>\<open>AttrProvenanceSkipFrame\<close> and \<^verbatim>\<open>AttrEnumClass\<close> lies within positions 0 to 27.
\<close>

theorem width_budget_catalog:
  assumes "e \<in> set catalog" and "flag_name e \<noteq> ''AttrUnusedMaxAttr''"
  shows "(\<forall>n. bit (flag_mask e) n \<longrightarrow> n < 31) \<and>
         (flag_name e \<notin> {''AttrVariadicParam'', ''AttrProvenanceSkipFrame'', ''AttrEnumClass''}
            \<longrightarrow> (\<forall>n. bit (flag_mask e) n \<longrightarrow> n < 28))"
  using catalog_widths assms unfolding list_all_iff drop_bit_zero_iff
  by auto

theorem width_budget_catalog_witness:
  "row ''AttrNoFCallBuiltin'' AttrNoFCallBuiltin [Method] \<in> set catalog \<and>
   ''AttrNoFCallBuiltin'' \<noteq> ''AttrUnusedMaxAttr'' \<and>
   ''AttrNoFCallBuiltin''
     \<notin> {''AttrVariadicParam'', ''AttrProvenanceSkipFrame'', ''AttrEnumClass''} \<and>
   bit AttrNoFCallBuiltin 27 \<and> \<not> bit AttrNoFCallBuiltin 28 \<and>
   row ''AttrEnumClass'' AttrEnumClass [Class] \<in> set catalog \<and>
   ''AttrEnumClass'' \<noteq> ''AttrUnusedMaxAttr'' \<and>
   bit AttrEnumClass 30 \<and> \<not> bit AttrEnumClass 31"
proof -
  let ?lo = "row ''AttrNoFCallBuiltin'' AttrNoFCallBuiltin [Method]"
  let ?hi = "row ''AttrEnumClass'' AttrEnumClass [Class]"
  have a: "?lo \<in> set catalog"
    by (simp add: catalog_def)
  have b: "?hi \<in> set catalog"
    by (simp add: catalog_def)
  have c: "flag_name ?lo \<noteq> ''AttrUnusedMaxAttr''"
    by (simp add: row_def)
  have d: "flag_name ?hi \<noteq> ''AttrUnusedMaxAttr''"
    by (simp add: row_def)
  have n: "flag_name ?lo
      \<notin> {''AttrVariadicParam'', ''AttrProvenanceSkipFrame'', ''AttrEnumClass''}"
    by (simp add: row_def)
  from width_budget_catalog [OF a c]
  have "flag_name ?lo
      \<notin> {''AttrVariadicParam'', ''AttrProvenanceSkipFrame'', ''AttrEnumClass''} \<longrightarrow>
      (\<forall>n. bit (flag_mask ?lo) n \<longrightarrow> n < 28)"
    by (rule conjunct2)
  with n have "\<forall>n. bit (flag_mask ?lo) n \<longrightarrow> n < 28"
    by (rule rev_mp)
  then have "bit (flag_mask ?lo) 28 \<longrightarrow> (28::nat) < 28"
    by (rule spec)
  then have lo: "\<not> bit AttrNoFCallBuiltin 28"
    by (simp add: row_def)
  from width_budget_catalog [OF b d]
  have "\<forall>n. bit (flag_mask ?hi) n \<longrightarrow> n < 31"
    by (rule conjunct1)
  then have "bit (flag_mask ?hi) 31 \<longrightarrow> (31::nat) < 31"
    by (rule spec)
  then have hi: "\<not> bit AttrEnumClass 31"
    by (simp add: row_def)
  have s: "bit AttrNoFCallBuiltin 27" "bit AttrEnumClass 30"
    by (simp_all add: AttrNoFCallBuiltin_def AttrEnumClass_def bit_simps)
  from a b lo hi s show ?thesis by simp
qed

text \<open>
  Claim C6. \<^verbatim>\<open>attrSetter\<close> leaves the register equal to \<^verbatim>\<open>r | f\<close> when the boolean is
  true and to \<^verbatim>\<open>r & ~f\<close> when it is false; every bit position outside the mask of \<open>f\<close>
  is unchanged.
\<close>

theorem attrSetter_semantics:
  "attrSetter r True f = r OR f \<and> attrSetter r False f = r AND NOT f \<and>
   (\<forall>n. \<not> bit f n \<longrightarrow> bit (attrSetter r enabled f) n = bit r n)"
  by (auto simp add: attrSetter_def operator_or_assign_eq bit_simps dest: bit_imp_le_length)

theorem attrSetter_semantics_witness:
  "attrSetter 5 True AttrPublic = 7 \<and> attrSetter 7 False AttrPublic = 5 \<and>
   \<not> bit AttrPublic 2 \<and> bit (attrSetter 5 True AttrPublic) 2 = bit (5::Attr) 2 \<and>
   bit (attrSetter 7 False AttrPublic) 2 = bit (7::Attr) 2"
proof -
  have h: "\<not> bit AttrPublic 2"
    by (simp add: AttrPublic_def bit_simps)
  from attrSetter_semantics [of 5 AttrPublic True] attrSetter_semantics [of 7 AttrPublic False] h
  show ?thesis by (simp add: AttrPublic_def)
qed

text \<open>
  Claim C7. The sentinel bit is inert: for every named flag \<open>f\<close> other than
  \<^verbatim>\<open>AttrUnusedMaxAttr\<close>, setting or clearing bit 31 of a register changes neither
  \<^verbatim>\<open>hasFlag\<close> for \<open>f\<close> nor \<^verbatim>\<open>attrToVisibilityStr\<close>; two registers that agree on their
  low 31 bits (they differ at most in bit 31) give the same results.
\<close>

theorem sentinel_bit_inert:
  assumes "f \<in> set named_flags" and "f \<noteq> AttrUnusedMaxAttr"
  shows "hasFlag (attrSetter r b AttrUnusedMaxAttr) f = hasFlag r f \<and>
         attrToVisibilityStr (attrSetter r b AttrUnusedMaxAttr) = attrToVisibilityStr r \<and>
         (take_bit 31 r = take_bit 31 r' \<longrightarrow>
            hasFlag r f = hasFlag r' f \<and> attrToVisibilityStr r = attrToVisibilityStr r')"
proof (intro conjI impI)
  show "hasFlag (attrSetter r b AttrUnusedMaxAttr) f = hasFlag r f"
    using take_bit_31_attrSetter assms by (rule same_below_top)
  show "attrToVisibilityStr (attrSetter r b AttrUnusedMaxAttr) = attrToVisibilityStr r"
    by (simp add: attrToVisibilityStr_bits attrSetter_top_bit)
next
  assume d: "take_bit 31 r = take_bit 31 r'"
  then show "hasFlag r f = hasFlag r' f"
    using assms by (rule same_below_top)
  from d have "bit r 3 = bit r' 3" and "bit r 2 = bit r' 2"
    by (rule take_bit_31_bits, simp)+
  then show "attrToVisibilityStr r = attrToVisibilityStr r'"
    by (simp add: attrToVisibilityStr_bits)
qed

theorem sentinel_bit_inert_witness:
  "AttrPrivate \<in> set named_flags \<and> AttrPrivate \<noteq> AttrUnusedMaxAttr \<and>
   hasFlag (attrSetter AttrPrivate True AttrUnusedMaxAttr) AttrPrivate \<and>
   attrToVisibilityStr (attrSetter AttrPrivate True AttrUnusedMaxAttr) = ''private'' \<and>
   take_bit 31 AttrPrivate = take_bit 31 (operator_or AttrPrivate AttrUnusedMaxAttr) \<and>
   operator_or AttrPrivate AttrUnusedMaxAttr \<noteq> AttrPrivate \<and>
   hasFlag (operator_or AttrPrivate AttrUnusedMaxAttr) AttrPrivate \<and>
   attrToVisibilityStr (operator_or AttrPrivate AttrUnusedMaxAttr) = ''private''"
proof -
  have m: "AttrPrivate \<in> set named_flags"
    by (simp add: named_flags_def enumerators_def catalog_def row_def)
  have n: "AttrPrivate \<noteq> AttrUnusedMaxAttr"
    by (simp add: AttrPrivate_def AttrUnusedMaxAttr_def)
  have d: "take_bit 31 AttrPrivate = take_bit 31 (operator_or AttrPrivate AttrUnusedMaxAttr)"
    by (simp add: operator_or_eq AttrPrivate_def AttrUnusedMaxAttr_def)
  have e: "operator_or AttrPrivate AttrUnusedMaxAttr \<noteq> AttrPrivate"
    by (simp add: operator_or_eq AttrPrivate_def AttrUnusedMaxAttr_def)
  have v: "attrToVisibilityStr AttrPrivate = ''private''"
    by (simp add: attrToVisibilityStr_def AttrPrivate_def)
  have h: "hasFlag AttrPrivate AttrPrivate"
    by (simp add: hasFlag_def)
  from sentinel_bit_inert
    [OF m n, of AttrPrivate True "operator_or AttrPrivate AttrUnusedMaxAttr"] m n d e v h
  show ?thesis by simp
qed

text \<open>
  Claim C8. End-to-end example: from the empty register \<^verbatim>\<open>AttrNone\<close>, setting
  \<^verbatim>\<open>AttrPrivate\<close> and then \<^verbatim>\<open>AttrStatic\<close> with \<^verbatim>\<open>attrSetter\<close> gives a register that
  has \<^verbatim>\<open>AttrPrivate\<close>, does not have \<^verbatim>\<open>AttrPublic\<close>, decodes to "private" and has
  \<^verbatim>\<open>AttrStatic\<close>.
\<close>

theorem end_to_end_private_static:
  "hasFlag (attrSetter (attrSetter AttrNone True AttrPrivate) True AttrStatic) AttrPrivate \<and>
   \<not> hasFlag (attrSetter (attrSetter AttrNone True AttrPrivate) True AttrStatic) AttrPublic \<and>
   attrToVisibilityStr (attrSetter (attrSetter AttrNone True AttrPrivate) True AttrStatic)
     = ''private'' \<and>
   hasFlag (attrSetter (attrSetter AttrNone True AttrPrivate) True AttrStatic) AttrStatic"
  by (simp add: attrSetter_def operator_or_assign_eq hasFlag_def attrToVisibilityStr_def
      AttrNone_def AttrPrivate_def AttrStatic_def AttrPublic_def)

text \<open>
  Claim C9. \<^verbatim>\<open>attrSetter\<close> is idempotent: applying it twice with the same flag and the
  same boolean gives what applying it once gives, for true and for false.
\<close>

theorem attrSetter_idempotent:
  "attrSetter (attrSetter r True f) True f = attrSetter r True f \<and>
   attrSetter (attrSetter r False f) False f = attrSetter r False f"
  by (simp add: attrSetter_def operator_or_assign_eq ac_simps)

theorem attrSetter_idempotent_witness:
  "attrSetter (attrSetter AttrPrivate True AttrStatic) True AttrStatic = 24 \<and>
   attrSetter AttrPrivate True AttrStatic = 24 \<and>
   attrSetter (attrSetter 24 False AttrStatic) False AttrStatic = AttrPrivate \<and>
   attrSetter 24 False AttrStatic = AttrPrivate"
  using attrSetter_idempotent [of AttrPrivate AttrStatic] attrSetter_idempotent [of 24 AttrStatic]
  by (simp add: attrSetter_def operator_or_assign_eq AttrPrivate_def AttrStatic_def)

text \<open>
  Claim C10. \<^verbatim>\<open>AttrNone\<close> is the identity of combination: \<^verbatim>\<open>r | AttrNone\<close> and
  \<^verbatim>\<open>AttrNone | r\<close> are \<open>r\<close>, and \<^verbatim>\<open>r |= AttrNone\<close> leaves \<open>r\<close> unchanged.
\<close>

theorem AttrNone_identity:
  "operator_or r AttrNone = r \<and> operator_or AttrNone r = r \<and>
   operator_or_assign r AttrNone = r"
  by (simp add: operator_or_eq operator_or_assign_eq AttrNone_def)

theorem AttrNone_identity_witness:
  "operator_or AttrFinal AttrNone = AttrFinal \<and> operator_or AttrNone AttrFinal = AttrFinal \<and>
   operator_or_assign AttrFinal AttrNone = AttrFinal"
  using AttrNone_identity [of AttrFinal] by simp

end
